theory Spec2Isabelle
  imports Main
begin

section \<open>The libsecret bindings the module calls\<close>

text \<open>
  \<^verbatim>\<open>msal_extensions/libsecret.py\<close> is a thin adapter over the GObject bindings of
  libsecret (\<^verbatim>\<open>gi.repository.Secret\<close>). The bindings are not part of the module, so
  they appear here as data and as a parameter:
  \<^item> \<^verbatim>\<open>Secret.SchemaAttributeType\<close> and \<^verbatim>\<open>Secret.SchemaFlags\<close> are enumerations;
  \<^item> a Python \<^verbatim>\<open>dict\<close> with string keys is a map \<open>string \<rightharpoonup> 'v\<close>;
  \<^item> \<^verbatim>\<open>Secret.Schema.new(name, flags, types)\<close> builds a value holding its three arguments;
  \<^item> the three blocking calls \<^verbatim>\<open>password_store_sync\<close>, \<^verbatim>\<open>password_lookup_sync\<close> and
    \<^verbatim>\<open>password_clear_sync\<close> are the fields of a record of functions over the state
    \<open>'st\<close> of the secret service. Each returns its result or the exception it raised,
    together with the state it leaves behind.
\<close>

datatype SchemaAttributeType = STRING | INTEGER | BOOLEAN

datatype SchemaFlags = NONE | DONT_MATCH_NAME

type_synonym 'v dict = "string \<rightharpoonup> 'v"

record Schema =
  schema_name :: string
  schema_flags :: SchemaFlags
  schema_attribute_types :: "SchemaAttributeType dict"

definition Schema_new :: "string \<Rightarrow> SchemaFlags \<Rightarrow> SchemaAttributeType dict \<Rightarrow> Schema" where
  "Schema_new name flags types =
     \<lparr>schema_name = name, schema_flags = flags, schema_attribute_types = types\<rparr>"

text \<open>A collection and a cancellable are opaque handles; the module only passes them on.\<close>

datatype Collection = Collection string

datatype Cancellable = Cancellable nat

text \<open>
  The exceptions a call can end with, by the kinds the module distinguishes:
  \<^verbatim>\<open>gi.repository.GLib.Error\<close> (with its message), \<^verbatim>\<open>AssertionError\<close>, and every other
  exception (named by its class).
\<close>

datatype exn = GLib_Error string | AssertionError | Other_Exception string

record 'st Secret =
  password_store_sync ::
    "Schema \<Rightarrow> string dict \<Rightarrow> Collection option \<Rightarrow> string \<Rightarrow> string \<Rightarrow> Cancellable option
       \<Rightarrow> 'st \<Rightarrow> (exn + bool) \<times> 'st"
  password_lookup_sync ::
    "Schema \<Rightarrow> string dict \<Rightarrow> Cancellable option \<Rightarrow> 'st \<Rightarrow> (exn + string option) \<times> 'st"
  password_clear_sync ::
    "Schema \<Rightarrow> string dict \<Rightarrow> Cancellable option \<Rightarrow> 'st \<Rightarrow> (exn + bool) \<times> 'st"

section \<open>Python's dictionary idioms\<close>

text \<open>
  \<^verbatim>\<open>d or {}\<close>: \<^verbatim>\<open>None\<close> and the empty dict are both falsy and give the empty dict, any
  other dict gives itself. As a mapping the empty dict is already \<open>Map.empty\<close>, so only
  \<^verbatim>\<open>None\<close> needs a branch.
\<close>

definition or_empty :: "'v dict option \<Rightarrow> 'v dict" where
  "or_empty d = (case d of None \<Rightarrow> Map.empty | Some m \<Rightarrow> m)"

text \<open>\<^verbatim>\<open>d.get(k, default)\<close>.\<close>

definition dict_get :: "'v dict \<Rightarrow> string \<Rightarrow> 'v \<Rightarrow> 'v" where
  "dict_get d k fallback = (case d k of None \<Rightarrow> fallback | Some v \<Rightarrow> v)"

text \<open>\<^verbatim>\<open>{k: f(k) for k in d}\<close>: one entry for each key of \<open>d\<close>.\<close>

definition dict_comprehension :: "(string \<Rightarrow> 'w) \<Rightarrow> 'v dict \<Rightarrow> 'w dict" where
  "dict_comprehension f d = (\<lambda>k. case d k of None \<Rightarrow> None | Some _ \<Rightarrow> Some (f k))"

section \<open>LibSecretAgent\<close>

text \<open>
  The four private fields \<^verbatim>\<open>_collection\<close>, \<^verbatim>\<open>_attributes\<close>, \<^verbatim>\<open>_label\<close> and \<^verbatim>\<open>_schema\<close>
  that \<^verbatim>\<open>__init__\<close> assigns.
\<close>

record LibSecretAgent =
  collection :: "Collection option"
  attributes :: "string dict"
  label :: string
  schema :: Schema

text \<open>
  \<^verbatim>\<open>__init__(self, schema_name, attributes, label="", attribute_types=None, collection=None)\<close>.
  The optional parameters are passed explicitly; \<^verbatim>\<open>attributes\<close> and \<^verbatim>\<open>attribute_types\<close>
  may be \<^verbatim>\<open>None\<close>.
\<close>

definition LibSecretAgent_init ::
  "string \<Rightarrow> string dict option \<Rightarrow> string \<Rightarrow> SchemaAttributeType dict option
     \<Rightarrow> Collection option \<Rightarrow> LibSecretAgent" where
  "LibSecretAgent_init name attrs lbl attribute_types coll =
     (let self_attributes = or_empty attrs in
      \<lparr>collection = coll,
       attributes = self_attributes,
       label = lbl,
       schema = Schema_new name NONE
         (dict_comprehension (\<lambda>k. dict_get (or_empty attribute_types) k STRING)
            self_attributes)\<rparr>)"

text \<open>
  \<^verbatim>\<open>save\<close>, \<^verbatim>\<open>load\<close> and \<^verbatim>\<open>clear\<close> return what the binding returns; an exception of
  the binding is not caught, so it is the method's outcome too. The last argument of each
  call is the literal \<^verbatim>\<open>None\<close> (no cancellable).
\<close>

definition save :: "'st Secret \<Rightarrow> LibSecretAgent \<Rightarrow> string \<Rightarrow> 'st \<Rightarrow> (exn + bool) \<times> 'st" where
  "save secret self data =
     password_store_sync secret (schema self) (attributes self) (collection self) (label self)
       data None"

definition load :: "'st Secret \<Rightarrow> LibSecretAgent \<Rightarrow> 'st \<Rightarrow> (exn + string option) \<times> 'st" where
  "load secret self = password_lookup_sync secret (schema self) (attributes self) None"

definition clear :: "'st Secret \<Rightarrow> LibSecretAgent \<Rightarrow> 'st \<Rightarrow> (exn + bool) \<times> 'st" where
  "clear secret self = password_clear_sync secret (schema self) (attributes self) None"

section \<open>The availability probe\<close>

text \<open>
  The module's logger, as the list of the records it has emitted.
  \<^verbatim>\<open>logger.exception(m)\<close> emits \<open>m\<close> at level \<open>ERROR\<close> together with the exception being
  handled (its stack trace); \<^verbatim>\<open>logger.warning(m)\<close> emits \<open>m\<close> at level \<open>WARNING\<close> alone.
\<close>

datatype level = WARNING | ERROR

record LogRecord =
  levelname :: level
  msg :: string
  exc_info :: "exn option"

definition logger_exception :: "string \<Rightarrow> exn \<Rightarrow> LogRecord list \<Rightarrow> LogRecord list" where
  "logger_exception m e log = log @ [\<lparr>levelname = ERROR, msg = m, exc_info = Some e\<rparr>]"

definition logger_warning :: "string \<Rightarrow> LogRecord list \<Rightarrow> LogRecord list" where
  "logger_warning m log = log @ [\<lparr>levelname = WARNING, msg = m, exc_info = None\<rparr>]"

definition message :: string where
  "message = ''libsecret did not perform properly. Please refer to '' @
     ''https://github.com/AzureAD/microsoft-authentication-extensions-for-python/wiki/Encryption-on-Linux''"

text \<open>
  The body of the \<^verbatim>\<open>try\<close> block of \<^verbatim>\<open>trial_run\<close>. An exception of a call ends the block
  there; \<^verbatim>\<open>assert agent.load() == payload\<close> raises \<^verbatim>\<open>AssertionError\<close> when the loaded
  value is not the payload (\<^verbatim>\<open>None\<close> included).
\<close>

definition trial_run_try :: "'st Secret \<Rightarrow> 'st \<Rightarrow> (exn + unit) \<times> 'st" where
  "trial_run_try secret st =
     (let agent = LibSecretAgent_init ''Test Schema''
            (Some [''attr1'' \<mapsto> ''foo'', ''attr2'' \<mapsto> ''bar'']) '''' None None;
          payload = ''Test Data''
      in case save secret agent payload st of
           (Inl e, st1) \<Rightarrow> (Inl e, st1)
         | (Inr _, st1) \<Rightarrow>
             (case load secret agent st1 of
                (Inl e, st2) \<Rightarrow> (Inl e, st2)
              | (Inr loaded, st2) \<Rightarrow>
                  if loaded \<noteq> Some payload then (Inl AssertionError, st2)
                  else (case clear secret agent st2 of
                          (Inl e, st3) \<Rightarrow> (Inl e, st3)
                        | (Inr _, st3) \<Rightarrow> (Inr (), st3))))"

text \<open>\<^verbatim>\<open>except (gi.repository.GLib.Error, AssertionError)\<close>: the exceptions the clause matches.\<close>

fun caught :: "exn \<Rightarrow> bool" where
  "caught (GLib_Error _) = True"
| "caught AssertionError = True"
| "caught (Other_Exception _) = False"

text \<open>
  \<^verbatim>\<open>trial_run()\<close> over the state of the secret service and the log. A caught exception is
  logged twice and raised again by the bare \<^verbatim>\<open>raise\<close>; any other exception leaves the
  function as it is.
\<close>

definition trial_run ::
  "'st Secret \<Rightarrow> 'st \<times> LogRecord list \<Rightarrow> (exn + unit) \<times> 'st \<times> LogRecord list" where
  "trial_run secret = (\<lambda>(st, log).
     case trial_run_try secret st of
       (Inl e, st') \<Rightarrow>
         if caught e
         then (Inl e, st', logger_warning message (logger_exception message e log))
         else (Inl e, st', log)
     | (Inr u, st') \<Rightarrow> (Inr u, st', log))"

section \<open>Observing the calls an adapter makes\<close>

text \<open>
  A call of the binding with its arguments, and a wrapper around any secret service that
  appends each call it receives to a list before passing it on unchanged.
\<close>

datatype call =
    Password_store Schema "string dict" "Collection option" string string "Cancellable option"
  | Password_lookup Schema "string dict" "Cancellable option"
  | Password_clear Schema "string dict" "Cancellable option"

definition recording :: "'st Secret \<Rightarrow> (call list \<times> 'st) Secret" where
  "recording secret =
     \<lparr>password_store_sync = (\<lambda>s a c l d n (calls, st).
        case password_store_sync secret s a c l d n st of
          (r, st') \<Rightarrow> (r, calls @ [Password_store s a c l d n], st')),
      password_lookup_sync = (\<lambda>s a n (calls, st).
        case password_lookup_sync secret s a n st of
          (r, st') \<Rightarrow> (r, calls @ [Password_lookup s a n], st')),
      password_clear_sync = (\<lambda>s a n (calls, st).
        case password_clear_sync secret s a n st of
          (r, st') \<Rightarrow> (r, calls @ [Password_clear s a n], st'))\<rparr>"

text \<open>A secret service without state that answers every call with a fixed outcome.\<close>

definition canned ::
  "(exn + bool) \<Rightarrow> (exn + string option) \<Rightarrow> (exn + bool) \<Rightarrow> unit Secret" where
  "canned stored found cleared =
     \<lparr>password_store_sync = (\<lambda>s a c l d n st. (stored, st)),
      password_lookup_sync = (\<lambda>s a n st. (found, st)),
      password_clear_sync = (\<lambda>s a n st. (cleared, st))\<rparr>"

text \<open>
  A sequence of method calls on one adapter, run in order; an exception ends the run. The
  state of a run is the adapter object together with the state of the secret service. No
  method body assigns to a field of \<^verbatim>\<open>self\<close>, so each call hands the adapter on as it
  received it.
\<close>

datatype operation = Save string | Load | Clear

datatype outcome = Saved bool | Loaded "string option" | Cleared bool

fun invoke ::
  "'st Secret \<Rightarrow> operation \<Rightarrow> LibSecretAgent \<times> 'st
     \<Rightarrow> (exn + outcome) \<times> LibSecretAgent \<times> 'st" where
  "invoke secret (Save data) (self, st) =
     (case save secret self data st of (r, st') \<Rightarrow> (map_sum id Saved r, self, st'))"
| "invoke secret Load (self, st) =
     (case load secret self st of (r, st') \<Rightarrow> (map_sum id Loaded r, self, st'))"
| "invoke secret Clear (self, st) =
     (case clear secret self st of (r, st') \<Rightarrow> (map_sum id Cleared r, self, st'))"

fun invoke_all ::
  "'st Secret \<Rightarrow> operation list \<Rightarrow> LibSecretAgent \<times> 'st
     \<Rightarrow> (exn + outcome list) \<times> LibSecretAgent \<times> 'st" where
  "invoke_all secret [] s = (Inr [], s)"
| "invoke_all secret (m # ms) s =
     (case invoke secret m s of
        (Inl e, s') \<Rightarrow> (Inl e, s')
      | (Inr r, s') \<Rightarrow>
          (case invoke_all secret ms s' of
             (Inl e, s'') \<Rightarrow> (Inl e, s'')
           | (Inr rs, s'') \<Rightarrow> (Inr (r # rs), s'')))"

text \<open>The pair of schema and attributes a call carries.\<close>

fun call_filter :: "call \<Rightarrow> Schema \<times> string dict" where
  "call_filter (Password_store s a c l d n) = (s, a)"
| "call_filter (Password_lookup s a n) = (s, a)"
| "call_filter (Password_clear s a n) = (s, a)"

section \<open>A reference secret service\<close>

text \<open>
  Modelled from the spec: the items of the secret service. The service itself (the daemon
  behind \<^verbatim>\<open>gi.repository.Secret\<close>) is an external collaborator and no part of the module;
  the specification describes it as a store of secret items, each tagged with a schema
  name, an attribute set, the collection it lives in and a label, and carrying a payload.
\<close>

record Item =
  item_schema_name :: string
  item_attributes :: "string dict"
  item_collection :: "Collection option"
  item_label :: string
  item_payload :: string

text \<open>
  Modelled from the spec: the filter of the secret service. Lookups and stores only match
  items tagged with the same schema name, and all operations are scoped to the items with
  exactly the given attribute set.
\<close>

definition matches :: "Schema \<Rightarrow> string dict \<Rightarrow> Item \<Rightarrow> bool" where
  "matches s a i = (item_schema_name i = schema_name s \<and> item_attributes i = a)"

text \<open>
  Modelled from the spec: the three operations of a functional secret service, which
  raises no error. \<^verbatim>\<open>store\<close> creates or overwrites the one item matching schema and
  attributes in the target collection and reports that the write was accepted; \<^verbatim>\<open>lookup\<close>
  returns the payload of the item matching schema and attributes, or nothing, and changes
  nothing; \<^verbatim>\<open>clear\<close> deletes all items matching schema and attributes and reports whether
  there was at least one. The newest item comes first, and a lookup that finds several
  items returns the newest.
\<close>

definition keyring :: "Item list Secret" where
  "keyring =
     \<lparr>password_store_sync = (\<lambda>s a c l d n items.
        (Inr True,
         \<lparr>item_schema_name = schema_name s, item_attributes = a, item_collection = c,
          item_label = l, item_payload = d\<rparr>
           # filter (\<lambda>i. \<not> (matches s a i \<and> item_collection i = c)) items)),
      password_lookup_sync = (\<lambda>s a n items.
        (Inr (case filter (matches s a) items of [] \<Rightarrow> None | i # _ \<Rightarrow> Some (item_payload i)),
         items)),
      password_clear_sync = (\<lambda>s a n items.
        (Inr (filter (matches s a) items \<noteq> []), filter (\<lambda>i. \<not> matches s a i) items))\<rparr>"

section \<open>Schema derivation\<close>

lemma dom_dict_comprehension: "dom (dict_comprehension f d) = dom d"
  by (auto simp: dict_comprehension_def dom_def split: option.splits)

lemma schema_init:
  "schema (LibSecretAgent_init name attrs lbl tys coll) =
     Schema_new name NONE
       (dict_comprehension (\<lambda>k. dict_get (or_empty tys) k STRING) (or_empty attrs))"
  by (simp add: LibSecretAgent_init_def Let_def)

lemma attributes_init: "attributes (LibSecretAgent_init name attrs lbl tys coll) = or_empty attrs"
  by (simp add: LibSecretAgent_init_def Let_def)

text \<open>
  Claim C1. For every schema name, every attributes mapping (possibly empty or
  \<^verbatim>\<open>None\<close>) and every partial or absent \<^verbatim>\<open>attribute_types\<close>, the type mapping of the schema
  derived by the constructor has exactly the keys of the attributes; a key that
  \<^verbatim>\<open>attribute_types\<close> knows gets the type given there, every other key gets \<open>STRING\<close>, and
  a key of \<^verbatim>\<open>attribute_types\<close> that is no attribute has no entry.
\<close>

theorem derived_schema_types:
  "(let A = or_empty attrs; T = or_empty tys;
        derived = schema_attribute_types (schema (LibSecretAgent_init name attrs lbl tys coll))
    in dom derived = dom A
      \<and> (\<forall>k t. k \<in> dom A \<and> T k = Some t \<longrightarrow> derived k = Some t)
      \<and> (\<forall>k. k \<in> dom A \<and> T k = None \<longrightarrow> derived k = Some STRING)
      \<and> (\<forall>k. k \<in> dom T \<and> k \<notin> dom A \<longrightarrow> derived k = None))"
  unfolding schema_init Schema_new_def Let_def
  by (auto simp: dom_dict_comprehension dict_comprehension_def dict_get_def
      split: option.splits)

theorem derived_schema_types_witness:
  "(let attrs = Some [''a'' \<mapsto> ''1'', ''b'' \<mapsto> ''x''];
        tys = Some [''a'' \<mapsto> INTEGER, ''c'' \<mapsto> BOOLEAN];
        derived = schema_attribute_types
          (schema (LibSecretAgent_init ''S'' attrs ''my label'' tys None))
    in ''a'' \<in> dom (or_empty attrs) \<and> or_empty tys ''a'' = Some INTEGER
      \<and> derived ''a'' = Some INTEGER
      \<and> ''b'' \<in> dom (or_empty attrs) \<and> or_empty tys ''b'' = None
      \<and> derived ''b'' = Some STRING
      \<and> ''c'' \<in> dom (or_empty tys) \<and> ''c'' \<notin> dom (or_empty attrs)
      \<and> derived ''c'' = None
      \<and> dom derived = {''a'', ''b''})"
  using derived_schema_types
    [where name = "''S''" and attrs = "Some [''a'' \<mapsto> ''1'', ''b'' \<mapsto> ''x'']"
       and lbl = "''my label''" and tys = "Some [''a'' \<mapsto> INTEGER, ''c'' \<mapsto> BOOLEAN]"
       and coll = None]
  by (auto simp: or_empty_def Let_def)

section \<open>The adapter built by the probe\<close>

lemma probe_agent:
  "LibSecretAgent_init ''Test Schema'' (Some [''attr1'' \<mapsto> ''foo'', ''attr2'' \<mapsto> ''bar''])
     '''' None None =
   \<lparr>collection = None,
    attributes = [''attr1'' \<mapsto> ''foo'', ''attr2'' \<mapsto> ''bar''],
    label = '''',
    schema = Schema_new ''Test Schema'' NONE [''attr1'' \<mapsto> STRING, ''attr2'' \<mapsto> STRING]\<rparr>"
proof -
  have "dict_comprehension (\<lambda>k. dict_get (or_empty None) k STRING)
          [''attr1'' \<mapsto> ''foo'', ''attr2'' \<mapsto> ''bar'']
        = [''attr1'' \<mapsto> STRING, ''attr2'' \<mapsto> STRING]"
    by (rule ext) (simp add: dict_comprehension_def dict_get_def or_empty_def)
  then show ?thesis
    by (simp add: LibSecretAgent_init_def Let_def or_empty_def)
qed

lemma trial_run_try_unfold:
  "trial_run_try secret st =
     (case password_store_sync secret
             (Schema_new ''Test Schema'' NONE [''attr1'' \<mapsto> STRING, ''attr2'' \<mapsto> STRING])
             [''attr1'' \<mapsto> ''foo'', ''attr2'' \<mapsto> ''bar''] None '''' ''Test Data'' None st of
        (Inl e, st1) \<Rightarrow> (Inl e, st1)
      | (Inr _, st1) \<Rightarrow>
          (case password_lookup_sync secret
                  (Schema_new ''Test Schema'' NONE [''attr1'' \<mapsto> STRING, ''attr2'' \<mapsto> STRING])
                  [''attr1'' \<mapsto> ''foo'', ''attr2'' \<mapsto> ''bar''] None st1 of
             (Inl e, st2) \<Rightarrow> (Inl e, st2)
           | (Inr loaded, st2) \<Rightarrow>
               if loaded \<noteq> Some ''Test Data'' then (Inl AssertionError, st2)
               else (case password_clear_sync secret
                            (Schema_new ''Test Schema'' NONE
                               [''attr1'' \<mapsto> STRING, ''attr2'' \<mapsto> STRING])
                            [''attr1'' \<mapsto> ''foo'', ''attr2'' \<mapsto> ''bar''] None st2 of
                       (Inl e, st3) \<Rightarrow> (Inl e, st3)
                     | (Inr _, st3) \<Rightarrow> (Inr (), st3))))"
  unfolding trial_run_try_def probe_agent Let_def save_def load_def clear_def
    LibSecretAgent.select_convs
  by (rule refl)

lemma trial_run_caught:
  assumes "trial_run_try secret st = (Inl e, st')" and "caught e"
  shows "trial_run secret (st, log) =
    (Inl e, st', log @ [\<lparr>levelname = ERROR, msg = message, exc_info = Some e\<rparr>,
                        \<lparr>levelname = WARNING, msg = message, exc_info = None\<rparr>])"
  using assms by (simp add: trial_run_def logger_exception_def logger_warning_def)

lemma trial_run_not_caught:
  assumes "trial_run_try secret st = (Inl e, st')" and "\<not> caught e"
  shows "trial_run secret (st, log) = (Inl e, st', log)"
  using assms by (simp add: trial_run_def)

section \<open>The probe reports and re-raises\<close>

lemma try_save_raises:
  assumes "save secret (LibSecretAgent_init ''Test Schema''
             (Some [''attr1'' \<mapsto> ''foo'', ''attr2'' \<mapsto> ''bar'']) '''' None None)
             ''Test Data'' st = (Inl e, st')"
  shows "trial_run_try secret st = (Inl e, st')"
  using assms by (simp add: trial_run_try_def Let_def)

lemma try_load_raises:
  assumes "save secret (LibSecretAgent_init ''Test Schema''
             (Some [''attr1'' \<mapsto> ''foo'', ''attr2'' \<mapsto> ''bar'']) '''' None None)
             ''Test Data'' st = (Inr b, st1)"
    and "load secret (LibSecretAgent_init ''Test Schema''
             (Some [''attr1'' \<mapsto> ''foo'', ''attr2'' \<mapsto> ''bar'']) '''' None None)
             st1 = (Inl e, st')"
  shows "trial_run_try secret st = (Inl e, st')"
  using assms by (simp add: trial_run_try_def Let_def)

lemma try_mismatch:
  assumes "save secret (LibSecretAgent_init ''Test Schema''
             (Some [''attr1'' \<mapsto> ''foo'', ''attr2'' \<mapsto> ''bar'']) '''' None None)
             ''Test Data'' st = (Inr b, st1)"
    and "load secret (LibSecretAgent_init ''Test Schema''
             (Some [''attr1'' \<mapsto> ''foo'', ''attr2'' \<mapsto> ''bar'']) '''' None None)
             st1 = (Inr loaded, st')"
    and "loaded \<noteq> Some ''Test Data''"
  shows "trial_run_try secret st = (Inl AssertionError, st')"
  using assms by (simp add: trial_run_try_def Let_def)

lemma try_clear_raises:
  assumes "save secret (LibSecretAgent_init ''Test Schema''
             (Some [''attr1'' \<mapsto> ''foo'', ''attr2'' \<mapsto> ''bar'']) '''' None None)
             ''Test Data'' st = (Inr b, st1)"
    and "load secret (LibSecretAgent_init ''Test Schema''
             (Some [''attr1'' \<mapsto> ''foo'', ''attr2'' \<mapsto> ''bar'']) '''' None None)
             st1 = (Inr (Some ''Test Data''), st2)"
    and "clear secret (LibSecretAgent_init ''Test Schema''
             (Some [''attr1'' \<mapsto> ''foo'', ''attr2'' \<mapsto> ''bar'']) '''' None None)
             st2 = (Inl e, st')"
  shows "trial_run_try secret st = (Inl e, st')"
  using assms by (simp add: trial_run_try_def Let_def)

lemma try_raises_cases:
  assumes "agent = LibSecretAgent_init ''Test Schema''
             (Some [''attr1'' \<mapsto> ''foo'', ''attr2'' \<mapsto> ''bar'']) '''' None None"
    and "save secret agent ''Test Data'' st = (Inl e, st')
      \<or> (\<exists>b st1. save secret agent ''Test Data'' st = (Inr b, st1)
            \<and> load secret agent st1 = (Inl e, st'))
      \<or> (\<exists>b st1 st2. save secret agent ''Test Data'' st = (Inr b, st1)
            \<and> load secret agent st1 = (Inr (Some ''Test Data''), st2)
            \<and> clear secret agent st2 = (Inl e, st'))"
  shows "trial_run_try secret st = (Inl e, st')"
  using assms(2) unfolding assms(1)
  by (elim disjE exE conjE) (fast intro: try_save_raises try_load_raises try_clear_raises)+

text \<open>
  Claim C2. Whenever the probe's sequence fails, because \<^verbatim>\<open>save\<close>, \<^verbatim>\<open>load\<close> or \<^verbatim>\<open>clear\<close>
  of the throwaway adapter raises a \<^verbatim>\<open>GLib.Error\<close>, or because the loaded value is not the
  payload \<^verbatim>\<open>"Test Data"\<close> (an \<^verbatim>\<open>AssertionError\<close>), the probe appends two records to the log,
  first the message at level \<open>ERROR\<close> with the exception attached and then the same message
  as a bare \<open>WARNING\<close>, and ends with that very exception: the failure is neither
  suppressed nor replaced by another.
\<close>

theorem probe_failure_logged_and_reraised:
  fixes secret :: "'st Secret" and log :: "LogRecord list"
  assumes "agent = LibSecretAgent_init ''Test Schema''
             (Some [''attr1'' \<mapsto> ''foo'', ''attr2'' \<mapsto> ''bar'']) '''' None None"
    and "(e = GLib_Error m \<and>
          (save secret agent ''Test Data'' st = (Inl e, st')
           \<or> (\<exists>b st1. save secret agent ''Test Data'' st = (Inr b, st1)
                 \<and> load secret agent st1 = (Inl e, st'))
           \<or> (\<exists>b st1 st2. save secret agent ''Test Data'' st = (Inr b, st1)
                 \<and> load secret agent st1 = (Inr (Some ''Test Data''), st2)
                 \<and> clear secret agent st2 = (Inl e, st'))))
      \<or> (e = AssertionError \<and>
          (\<exists>b st1 loaded. save secret agent ''Test Data'' st = (Inr b, st1)
                 \<and> load secret agent st1 = (Inr loaded, st')
                 \<and> loaded \<noteq> Some ''Test Data''))"
  shows "trial_run secret (st, log) =
    (Inl e, st', log @ [\<lparr>levelname = ERROR, msg = message, exc_info = Some e\<rparr>,
                        \<lparr>levelname = WARNING, msg = message, exc_info = None\<rparr>])"
proof -
  from assms(2) consider
    (service) "save secret agent ''Test Data'' st = (Inl e, st')
        \<or> (\<exists>b st1. save secret agent ''Test Data'' st = (Inr b, st1)
              \<and> load secret agent st1 = (Inl e, st'))
        \<or> (\<exists>b st1 st2. save secret agent ''Test Data'' st = (Inr b, st1)
              \<and> load secret agent st1 = (Inr (Some ''Test Data''), st2)
              \<and> clear secret agent st2 = (Inl e, st'))"
  | (mismatch) "e = AssertionError"
      "\<exists>b st1 loaded. save secret agent ''Test Data'' st = (Inr b, st1)
             \<and> load secret agent st1 = (Inr loaded, st')
             \<and> loaded \<noteq> Some ''Test Data''"
    by blast
  then have "trial_run_try secret st = (Inl e, st')"
  proof cases
    case service
    with assms(1) show ?thesis by (rule try_raises_cases)
  next
    case mismatch
    then show ?thesis
      unfolding assms(1) by (auto intro: try_mismatch)
  qed
  moreover from assms(2) have "caught e"
    by auto
  ultimately show ?thesis
    by (rule trial_run_caught)
qed

theorem probe_failure_logged_and_reraised_witness:
  "trial_run (canned (Inl (GLib_Error ''Cannot autolaunch D-Bus'')) (Inr None) (Inr False))
     ((), []) =
     (Inl (GLib_Error ''Cannot autolaunch D-Bus''), (),
      [\<lparr>levelname = ERROR, msg = message,
        exc_info = Some (GLib_Error ''Cannot autolaunch D-Bus'')\<rparr>,
       \<lparr>levelname = WARNING, msg = message, exc_info = None\<rparr>])
   \<and> trial_run (canned (Inr True) (Inr (Some ''Stale Data'')) (Inr True)) ((), []) =
     (Inl AssertionError, (),
      [\<lparr>levelname = ERROR, msg = message, exc_info = Some AssertionError\<rparr>,
       \<lparr>levelname = WARNING, msg = message, exc_info = None\<rparr>])"
proof
  let ?down = "canned (Inl (GLib_Error ''Cannot autolaunch D-Bus'')) (Inr None) (Inr False)"
  let ?stale = "canned (Inr True) (Inr (Some ''Stale Data'')) (Inr True)"
  let ?agent = "LibSecretAgent_init ''Test Schema''
     (Some [''attr1'' \<mapsto> ''foo'', ''attr2'' \<mapsto> ''bar'']) '''' None None"
  have "save ?down ?agent ''Test Data'' () = (Inl (GLib_Error ''Cannot autolaunch D-Bus''), ())"
    by (simp add: save_def canned_def)
  then show "trial_run ?down ((), []) =
     (Inl (GLib_Error ''Cannot autolaunch D-Bus''), (),
      [\<lparr>levelname = ERROR, msg = message,
        exc_info = Some (GLib_Error ''Cannot autolaunch D-Bus'')\<rparr>,
       \<lparr>levelname = WARNING, msg = message, exc_info = None\<rparr>])"
    using probe_failure_logged_and_reraised
      [where secret = ?down and agent = ?agent and st = "()" and st' = "()" and log = "[]"
         and e = "GLib_Error ''Cannot autolaunch D-Bus''" and m = "''Cannot autolaunch D-Bus''"]
    by simp
  have "save ?stale ?agent ''Test Data'' () = (Inr True, ())"
    and "load ?stale ?agent () = (Inr (Some ''Stale Data''), ())"
    by (simp_all add: save_def load_def canned_def)
  then show "trial_run ?stale ((), []) =
     (Inl AssertionError, (),
      [\<lparr>levelname = ERROR, msg = message, exc_info = Some AssertionError\<rparr>,
       \<lparr>levelname = WARNING, msg = message, exc_info = None\<rparr>])"
    using probe_failure_logged_and_reraised
      [where secret = ?stale and agent = ?agent and st = "()" and st' = "()" and log = "[]"
         and e = AssertionError]
    by auto
qed

text \<open>
  Claim C9. The \<^verbatim>\<open>except\<close> clause of the probe names two exception kinds,
  \<^verbatim>\<open>GLib.Error\<close> and \<^verbatim>\<open>AssertionError\<close>, and no other. When \<^verbatim>\<open>save\<close>, \<^verbatim>\<open>load\<close> or
  \<^verbatim>\<open>clear\<close> of the throwaway adapter raises an exception of any other kind, the probe ends
  with that exception and the log is as it was: neither record is emitted.
\<close>

theorem probe_other_failure_not_logged:
  fixes secret :: "'st Secret" and log :: "LogRecord list"
  assumes "agent = LibSecretAgent_init ''Test Schema''
             (Some [''attr1'' \<mapsto> ''foo'', ''attr2'' \<mapsto> ''bar'']) '''' None None"
    and "e = Other_Exception k"
    and "save secret agent ''Test Data'' st = (Inl e, st')
      \<or> (\<exists>b st1. save secret agent ''Test Data'' st = (Inr b, st1)
            \<and> load secret agent st1 = (Inl e, st'))
      \<or> (\<exists>b st1 st2. save secret agent ''Test Data'' st = (Inr b, st1)
            \<and> load secret agent st1 = (Inr (Some ''Test Data''), st2)
            \<and> clear secret agent st2 = (Inl e, st'))"
  shows "trial_run secret (st, log) = (Inl e, st', log)
    \<and> (\<forall>x. caught x = (x = AssertionError \<or> (\<exists>m. x = GLib_Error m)))"
proof
  have "trial_run_try secret st = (Inl e, st')"
    using assms(1) assms(3) by (rule try_raises_cases)
  moreover have "\<not> caught e"
    using assms(2) by simp
  ultimately show "trial_run secret (st, log) = (Inl e, st', log)"
    by (rule trial_run_not_caught)
  show "\<forall>x. caught x = (x = AssertionError \<or> (\<exists>m. x = GLib_Error m))"
  proof
    fix x show "caught x = (x = AssertionError \<or> (\<exists>m. x = GLib_Error m))"
      by (cases x) simp_all
  qed
qed

theorem probe_other_failure_not_logged_witness:
  "trial_run (canned (Inr True) (Inl (Other_Exception ''KeyboardInterrupt'')) (Inr True))
     ((), [\<lparr>levelname = WARNING, msg = ''earlier'', exc_info = None\<rparr>]) =
     (Inl (Other_Exception ''KeyboardInterrupt''), (),
      [\<lparr>levelname = WARNING, msg = ''earlier'', exc_info = None\<rparr>])"
proof -
  let ?svc = "canned (Inr True) (Inl (Other_Exception ''KeyboardInterrupt'')) (Inr True)"
  let ?agent = "LibSecretAgent_init ''Test Schema''
     (Some [''attr1'' \<mapsto> ''foo'', ''attr2'' \<mapsto> ''bar'']) '''' None None"
  have "save ?svc ?agent ''Test Data'' () = (Inr True, ())"
    and "load ?svc ?agent () = (Inl (Other_Exception ''KeyboardInterrupt''), ())"
    by (simp_all add: save_def load_def canned_def)
  then show ?thesis
    using probe_other_failure_not_logged
      [where secret = ?svc and agent = ?agent and st = "()" and st' = "()"
         and e = "Other_Exception ''KeyboardInterrupt''" and k = "''KeyboardInterrupt''"
         and log = "[\<lparr>levelname = WARNING, msg = ''earlier'', exc_info = None\<rparr>]"]
    by auto
qed


section \<open>The calls of the probe\<close>

lemma recording_store:
  "password_store_sync (recording secret) s a c l d n (calls, st) =
     (case password_store_sync secret s a c l d n st of
        (r, st') \<Rightarrow> (r, calls @ [Password_store s a c l d n], st'))"
  by (simp add: recording_def)

lemma recording_lookup:
  "password_lookup_sync (recording secret) s a n (calls, st) =
     (case password_lookup_sync secret s a n st of
        (r, st') \<Rightarrow> (r, calls @ [Password_lookup s a n], st'))"
  by (simp add: recording_def)

lemma recording_clear:
  "password_clear_sync (recording secret) s a n (calls, st) =
     (case password_clear_sync secret s a n st of
        (r, st') \<Rightarrow> (r, calls @ [Password_clear s a n], st'))"
  by (simp add: recording_def)

lemma trial_run_try_recording:
  fixes secret :: "'st Secret"
  assumes "S = Schema_new ''Test Schema'' NONE [''attr1'' \<mapsto> STRING, ''attr2'' \<mapsto> STRING]"
    and "A = [''attr1'' \<mapsto> ''foo'', ''attr2'' \<mapsto> ''bar'']"
  shows "trial_run_try (recording secret) ([], st) =
     (case password_store_sync secret S A None '''' ''Test Data'' None st of
        (Inl e, st1) \<Rightarrow> (Inl e, [Password_store S A None '''' ''Test Data'' None], st1)
      | (Inr _, st1) \<Rightarrow>
          (case password_lookup_sync secret S A None st1 of
             (Inl e, st2) \<Rightarrow>
               (Inl e, [Password_store S A None '''' ''Test Data'' None, Password_lookup S A None],
                st2)
           | (Inr loaded, st2) \<Rightarrow>
               if loaded \<noteq> Some ''Test Data''
               then (Inl AssertionError,
                     [Password_store S A None '''' ''Test Data'' None, Password_lookup S A None],
                     st2)
               else (case password_clear_sync secret S A None st2 of
                       (Inl e, st3) \<Rightarrow>
                         (Inl e, [Password_store S A None '''' ''Test Data'' None,
                                  Password_lookup S A None, Password_clear S A None], st3)
                     | (Inr _, st3) \<Rightarrow>
                         (Inr (), [Password_store S A None '''' ''Test Data'' None,
                                   Password_lookup S A None, Password_clear S A None], st3))))"
proof -
  obtain r1 st1 where "password_store_sync secret S A None '''' ''Test Data'' None st = (r1, st1)"
    by fastforce
  moreover obtain r2 st2 where "password_lookup_sync secret S A None st1 = (r2, st2)"
    by fastforce
  moreover obtain r3 st3 where "password_clear_sync secret S A None st2 = (r3, st3)"
    by fastforce
  ultimately show ?thesis
    unfolding assms
    by (cases r1; cases r2; cases r3)
      (simp_all add: trial_run_try_unfold recording_store recording_lookup recording_clear)
qed

lemma trial_run_try_transparent:
  fixes secret :: "'st Secret"
  assumes "trial_run_try (recording secret) (calls0, st) = (r, calls, st')"
  shows "trial_run_try secret st = (r, st')"
proof -
  let ?S = "Schema_new ''Test Schema'' NONE [''attr1'' \<mapsto> STRING, ''attr2'' \<mapsto> STRING]"
  let ?A = "[''attr1'' \<mapsto> ''foo'', ''attr2'' \<mapsto> ''bar'']"
  obtain r1 st1 where "password_store_sync secret ?S ?A None '''' ''Test Data'' None st = (r1, st1)"
    by fastforce
  moreover obtain r2 st2 where "password_lookup_sync secret ?S ?A None st1 = (r2, st2)"
    by fastforce
  moreover obtain r3 st3 where "password_clear_sync secret ?S ?A None st2 = (r3, st3)"
    by fastforce
  ultimately show ?thesis
    using assms
    by (cases r1; cases r2; cases r3)
      (auto simp: trial_run_try_unfold recording_store recording_lookup recording_clear
        split: if_splits)
qed

lemma trial_run_transparent:
  fixes secret :: "'st Secret"
  assumes "trial_run (recording secret) ((calls0, st), log) = (r, (calls, st'), log')"
  shows "trial_run secret (st, log) = (r, st', log')"
proof -
  obtain r0 calls1 st1 where run: "trial_run_try (recording secret) (calls0, st) = (r0, calls1, st1)"
    by (metis prod_cases3)
  then have plain: "trial_run_try secret st = (r0, st1)"
    by (rule trial_run_try_transparent)
  from assms show ?thesis
    unfolding trial_run_def using run plain
    by (cases r0) (auto split: if_splits)
qed

text \<open>
  Claim C3. The probe takes no argument and makes at most three calls, in this order and
  each at most once: \<^verbatim>\<open>password_store_sync\<close> with the schema named \<^verbatim>\<open>"Test Schema"\<close> whose
  two attributes \<^verbatim>\<open>attr1\<close> and \<^verbatim>\<open>attr2\<close> are of type \<open>STRING\<close>, the attributes
  \<^verbatim>\<open>{"attr1": "foo", "attr2": "bar"}\<close>, the default collection, the empty label and the
  payload \<^verbatim>\<open>"Test Data"\<close>; then \<^verbatim>\<open>password_lookup_sync\<close> with the same schema and
  attributes, whose result must be exactly the payload; then \<^verbatim>\<open>password_clear_sync\<close>
  with the same schema and attributes. A step that fails is the last call made, and its
  failure is the outcome of the probe. The calls are read off a run against the recording
  wrapper, and that run ends as the run against the wrapped service does.
\<close>

theorem probe_call_sequence:
  fixes secret :: "'st Secret"
  assumes "S = Schema_new ''Test Schema'' NONE [''attr1'' \<mapsto> STRING, ''attr2'' \<mapsto> STRING]"
    and "A = [''attr1'' \<mapsto> ''foo'', ''attr2'' \<mapsto> ''bar'']"
    and "trial_run (recording secret) (([], st), log) = (r, (calls, st'), log')"
  shows "trial_run secret (st, log) = (r, st', log')
    \<and> (case password_store_sync secret S A None '''' ''Test Data'' None st of
         (Inl e, st1) \<Rightarrow>
           calls = [Password_store S A None '''' ''Test Data'' None] \<and> r = Inl e \<and> st' = st1
       | (Inr _, st1) \<Rightarrow>
           (case password_lookup_sync secret S A None st1 of
              (Inl e, st2) \<Rightarrow>
                calls = [Password_store S A None '''' ''Test Data'' None,
                         Password_lookup S A None]
                \<and> r = Inl e \<and> st' = st2
            | (Inr loaded, st2) \<Rightarrow>
                if loaded \<noteq> Some ''Test Data''
                then calls = [Password_store S A None '''' ''Test Data'' None,
                              Password_lookup S A None]
                  \<and> r = Inl AssertionError \<and> st' = st2
                else (case password_clear_sync secret S A None st2 of
                        (Inl e, st3) \<Rightarrow>
                          calls = [Password_store S A None '''' ''Test Data'' None,
                                   Password_lookup S A None, Password_clear S A None]
                          \<and> r = Inl e \<and> st' = st3
                      | (Inr _, st3) \<Rightarrow>
                          calls = [Password_store S A None '''' ''Test Data'' None,
                                   Password_lookup S A None, Password_clear S A None]
                          \<and> r = Inr () \<and> st' = st3)))"
proof
  from assms(3) show "trial_run secret (st, log) = (r, st', log')"
    by (rule trial_run_transparent)
  obtain r1 st1 where "password_store_sync secret S A None '''' ''Test Data'' None st = (r1, st1)"
    by fastforce
  moreover obtain r2 st2 where "password_lookup_sync secret S A None st1 = (r2, st2)"
    by fastforce
  moreover obtain r3 st3 where "password_clear_sync secret S A None st2 = (r3, st3)"
    by fastforce
  ultimately show "case password_store_sync secret S A None '''' ''Test Data'' None st of
         (Inl e, st1) \<Rightarrow>
           calls = [Password_store S A None '''' ''Test Data'' None] \<and> r = Inl e \<and> st' = st1
       | (Inr _, st1) \<Rightarrow>
           (case password_lookup_sync secret S A None st1 of
              (Inl e, st2) \<Rightarrow>
                calls = [Password_store S A None '''' ''Test Data'' None,
                         Password_lookup S A None]
                \<and> r = Inl e \<and> st' = st2
            | (Inr loaded, st2) \<Rightarrow>
                if loaded \<noteq> Some ''Test Data''
                then calls = [Password_store S A None '''' ''Test Data'' None,
                              Password_lookup S A None]
                  \<and> r = Inl AssertionError \<and> st' = st2
                else (case password_clear_sync secret S A None st2 of
                        (Inl e, st3) \<Rightarrow>
                          calls = [Password_store S A None '''' ''Test Data'' None,
                                   Password_lookup S A None, Password_clear S A None]
                          \<and> r = Inl e \<and> st' = st3
                      | (Inr _, st3) \<Rightarrow>
                          calls = [Password_store S A None '''' ''Test Data'' None,
                                   Password_lookup S A None, Password_clear S A None]
                          \<and> r = Inr () \<and> st' = st3))"
    using assms(3)
    by (cases r1; cases r2; cases r3)
      (auto simp: trial_run_def trial_run_try_recording [OF assms(1) assms(2)]
        split: if_splits)
qed


theorem probe_call_sequence_witness:
  "trial_run (recording (canned (Inr True) (Inr None) (Inr False))) (([], ()), []) =
     (Inl AssertionError,
      ([Password_store
          (Schema_new ''Test Schema'' NONE [''attr1'' \<mapsto> STRING, ''attr2'' \<mapsto> STRING])
          [''attr1'' \<mapsto> ''foo'', ''attr2'' \<mapsto> ''bar''] None '''' ''Test Data'' None,
        Password_lookup
          (Schema_new ''Test Schema'' NONE [''attr1'' \<mapsto> STRING, ''attr2'' \<mapsto> STRING])
          [''attr1'' \<mapsto> ''foo'', ''attr2'' \<mapsto> ''bar''] None], ()),
      [\<lparr>levelname = ERROR, msg = message, exc_info = Some AssertionError\<rparr>,
       \<lparr>levelname = WARNING, msg = message, exc_info = None\<rparr>])
   \<and> trial_run (canned (Inr True) (Inr None) (Inr False)) ((), []) =
     (Inl AssertionError, (),
      [\<lparr>levelname = ERROR, msg = message, exc_info = Some AssertionError\<rparr>,
       \<lparr>levelname = WARNING, msg = message, exc_info = None\<rparr>])"
proof -
  have run: "trial_run (recording (canned (Inr True) (Inr None) (Inr False))) (([], ()), []) =
     (Inl AssertionError,
      ([Password_store
          (Schema_new ''Test Schema'' NONE [''attr1'' \<mapsto> STRING, ''attr2'' \<mapsto> STRING])
          [''attr1'' \<mapsto> ''foo'', ''attr2'' \<mapsto> ''bar''] None '''' ''Test Data'' None,
        Password_lookup
          (Schema_new ''Test Schema'' NONE [''attr1'' \<mapsto> STRING, ''attr2'' \<mapsto> STRING])
          [''attr1'' \<mapsto> ''foo'', ''attr2'' \<mapsto> ''bar''] None], ()),
      [\<lparr>levelname = ERROR, msg = message, exc_info = Some AssertionError\<rparr>,
       \<lparr>levelname = WARNING, msg = message, exc_info = None\<rparr>])"
    by (simp add: trial_run_def trial_run_try_recording [OF refl refl] canned_def
        logger_exception_def logger_warning_def)
  from probe_call_sequence [OF refl refl run]
  have "trial_run (canned (Inr True) (Inr None) (Inr False)) ((), []) =
     (Inl AssertionError, (),
      [\<lparr>levelname = ERROR, msg = message, exc_info = Some AssertionError\<rparr>,
       \<lparr>levelname = WARNING, msg = message, exc_info = None\<rparr>])"
    by (rule conjunct1)
  with run show ?thesis
    by (rule conjI)
qed


section \<open>The filter of an adapter\<close>

lemma invoke_recording:
  fixes secret :: "'st Secret"
  assumes "invoke (recording secret) m (self, calls, st) = (r, self', calls', st')"
  shows "self' = self
    \<and> (\<exists>c. calls' = calls @ [c] \<and> call_filter c = (schema self, attributes self))"
proof (cases m)
  case (Save data)
  obtain r1 st1 where
    "password_store_sync secret (schema self) (attributes self) (collection self) (label self)
       data None st = (r1, st1)"
    by fastforce
  with assms Save show ?thesis
    by (auto simp: save_def recording_store)
next
  case Load
  obtain r1 st1 where
    "password_lookup_sync secret (schema self) (attributes self) None st = (r1, st1)"
    by fastforce
  with assms Load show ?thesis
    by (auto simp: load_def recording_lookup)
next
  case Clear
  obtain r1 st1 where
    "password_clear_sync secret (schema self) (attributes self) None st = (r1, st1)"
    by fastforce
  with assms Clear show ?thesis
    by (auto simp: clear_def recording_clear)
qed

lemma invoke_all_recording:
  fixes secret :: "'st Secret"
  assumes "invoke_all (recording secret) ms (self, calls, st) = (r, self', calls', st')"
  shows "self' = self
    \<and> (\<exists>new. calls' = calls @ new
          \<and> (\<forall>c\<in>set new. call_filter c = (schema self, attributes self)))"
  using assms
proof (induction ms arbitrary: calls st r self' calls' st')
  case Nil
  then show ?case by simp
next
  case (Cons m ms)
  obtain r1 self1 calls1 st1 where
    step: "invoke (recording secret) m (self, calls, st) = (r1, self1, calls1, st1)"
    by (metis prod_cases4)
  then have "self1 = self
    \<and> (\<exists>c. calls1 = calls @ [c] \<and> call_filter c = (schema self, attributes self))"
    by (rule invoke_recording)
  then obtain c where self1: "self1 = self" and c: "calls1 = calls @ [c]" "call_filter c = (schema self, attributes self)"
    by blast
  show ?case
  proof (cases r1)
    case (Inl e)
    with Cons.prems step self1 c show ?thesis by auto
  next
    case (Inr v)
    obtain r2 self2 calls2 st2 where
      rest: "invoke_all (recording secret) ms (self, calls1, st1) = (r2, self2, calls2, st2)"
      by (metis prod_cases4)
    then have "self2 = self
      \<and> (\<exists>new. calls2 = calls1 @ new
          \<and> (\<forall>c\<in>set new. call_filter c = (schema self, attributes self)))"
      by (rule Cons.IH)
    then obtain new where self2: "self2 = self" and new: "calls2 = calls1 @ new"
      "\<forall>c\<in>set new. call_filter c = (schema self, attributes self)"
      by blast
    from Cons.prems step self1 Inr rest have "self' = self2" "calls' = calls2"
      by (cases r2; simp)+
    with self2 c new show ?thesis
      by (intro conjI exI [of _ "c # new"]) simp_all
  qed
qed

text \<open>
  Claim C5. Take any adapter, as its constructor built it, and any sequence of \<^verbatim>\<open>save\<close>,
  \<^verbatim>\<open>load\<close> and \<^verbatim>\<open>clear\<close> calls on it, against any secret service. Every call the adapter
  makes carries the schema and the attributes that the constructor established, the
  schema derived from the arguments and the attributes as given; and the adapter after the
  run is the adapter before it, with its schema, attributes, label and collection
  untouched.
\<close>

theorem filter_fixed_at_construction:
  fixes secret :: "'st Secret"
  assumes "self = LibSecretAgent_init name attrs lbl tys coll"
    and "invoke_all (recording secret) ms (self, [], st) = (r, self', calls, st')"
  shows "self' = self
    \<and> (\<forall>c\<in>set calls. call_filter c = (schema self, attributes self))
    \<and> attributes self = or_empty attrs
    \<and> schema self = Schema_new name NONE
         (dict_comprehension (\<lambda>k. dict_get (or_empty tys) k STRING) (or_empty attrs))
    \<and> label self = lbl \<and> collection self = coll"
proof -
  from assms(2) have "self' = self
    \<and> (\<exists>new. calls = [] @ new
          \<and> (\<forall>c\<in>set new. call_filter c = (schema self, attributes self)))"
    by (rule invoke_all_recording)
  then have "self' = self"
    and "\<forall>c\<in>set calls. call_filter c = (schema self, attributes self)"
    by simp_all
  moreover have "label self = lbl" "collection self = coll"
    unfolding assms(1) by (simp_all add: LibSecretAgent_init_def Let_def)
  ultimately show ?thesis
    unfolding assms(1) by (simp add: schema_init attributes_init)
qed

theorem filter_fixed_at_construction_witness:
  "(let self = LibSecretAgent_init ''S'' (Some [''user'' \<mapsto> ''alice'']) ''token cache'' None
                 (Some (Collection ''session''));
        secret = canned (Inr True) (Inr (Some ''blob'')) (Inr True)
    in invoke_all (recording secret) [Save ''blob'', Load, Clear, Load] (self, [], ()) =
         (Inr [Saved True, Loaded (Some ''blob''), Cleared True, Loaded (Some ''blob'')], self,
          [Password_store (schema self) (attributes self) (Some (Collection ''session''))
             ''token cache'' ''blob'' None,
           Password_lookup (schema self) (attributes self) None,
           Password_clear (schema self) (attributes self) None,
           Password_lookup (schema self) (attributes self) None], ())
      \<and> map call_filter
           [Password_store (schema self) (attributes self) (Some (Collection ''session''))
              ''token cache'' ''blob'' None,
            Password_lookup (schema self) (attributes self) None,
            Password_clear (schema self) (attributes self) None,
            Password_lookup (schema self) (attributes self) None] =
          replicate 4 (schema self, attributes self)
      \<and> attributes self = [''user'' \<mapsto> ''alice''])"
proof -
  let ?self = "LibSecretAgent_init ''S'' (Some [''user'' \<mapsto> ''alice'']) ''token cache'' None
                 (Some (Collection ''session''))"
  let ?secret = "canned (Inr True) (Inr (Some ''blob'')) (Inr True)"
  let ?calls = "[Password_store (schema ?self) (attributes ?self) (Some (Collection ''session''))
             ''token cache'' ''blob'' None,
           Password_lookup (schema ?self) (attributes ?self) None,
           Password_clear (schema ?self) (attributes ?self) None,
           Password_lookup (schema ?self) (attributes ?self) None]"
  have fields: "label ?self = ''token cache''" "collection ?self = Some (Collection ''session'')"
    by (simp_all add: LibSecretAgent_init_def Let_def)
  have run: "invoke_all (recording ?secret) [Save ''blob'', Load, Clear, Load] (?self, [], ()) =
         (Inr [Saved True, Loaded (Some ''blob''), Cleared True, Loaded (Some ''blob'')], ?self,
          ?calls, ())"
    by (simp add: save_def load_def clear_def recording_store recording_lookup recording_clear
        canned_def fields)
  from filter_fixed_at_construction [OF refl run]
  have "\<forall>c\<in>set ?calls. call_filter c = (schema ?self, attributes ?self)"
    and "attributes ?self = or_empty (Some [''user'' \<mapsto> ''alice''])"
    by blast+
  then have "map call_filter ?calls = replicate 4 (schema ?self, attributes ?self)"
    and "attributes ?self = [''user'' \<mapsto> ''alice'']"
    by (simp_all add: or_empty_def numeral_eq_Suc)
  with run show ?thesis
    unfolding Let_def by (intro conjI)
qed

section \<open>Errors of the secret service\<close>

text \<open>
  Claim C6. \<^verbatim>\<open>save\<close>, \<^verbatim>\<open>load\<close> and \<^verbatim>\<open>clear\<close> contain no \<^verbatim>\<open>try\<close>: whenever the call of the
  binding that a method makes raises an exception, the method ends with the same exception
  and leaves the secret service in the state the failed call left it in. Nothing is
  caught, replaced or turned into a return value.
\<close>

theorem crud_errors_propagate:
  fixes secret :: "'st Secret"
  shows "(password_store_sync secret (schema self) (attributes self) (collection self)
            (label self) data None st = (Inl e, st')
          \<longrightarrow> save secret self data st = (Inl e, st'))
    \<and> (password_lookup_sync secret (schema self) (attributes self) None st = (Inl e, st')
          \<longrightarrow> load secret self st = (Inl e, st'))
    \<and> (password_clear_sync secret (schema self) (attributes self) None st = (Inl e, st')
          \<longrightarrow> clear secret self st = (Inl e, st'))
    \<and> (\<forall>x. save secret self data st = (Inl x, st')
          \<longrightarrow> password_store_sync secret (schema self) (attributes self) (collection self)
                (label self) data None st = (Inl x, st'))
    \<and> (\<forall>x. load secret self st = (Inl x, st')
          \<longrightarrow> password_lookup_sync secret (schema self) (attributes self) None st = (Inl x, st'))
    \<and> (\<forall>x. clear secret self st = (Inl x, st')
          \<longrightarrow> password_clear_sync secret (schema self) (attributes self) None st = (Inl x, st'))"
  by (simp add: save_def load_def clear_def)

theorem crud_errors_propagate_witness:
  "(let secret = canned (Inl (GLib_Error ''The name org.freedesktop.secrets was not provided''))
                   (Inl (Other_Exception ''TypeError'')) (Inl (GLib_Error ''Prompt dismissed''));
        self = LibSecretAgent_init ''S'' (Some [''user'' \<mapsto> ''alice'']) ''L'' None None
    in save secret self ''blob'' () =
         (Inl (GLib_Error ''The name org.freedesktop.secrets was not provided''), ())
      \<and> load secret self () = (Inl (Other_Exception ''TypeError''), ())
      \<and> clear secret self () = (Inl (GLib_Error ''Prompt dismissed''), ()))"
proof -
  let ?secret = "canned (Inl (GLib_Error ''The name org.freedesktop.secrets was not provided''))
                   (Inl (Other_Exception ''TypeError'')) (Inl (GLib_Error ''Prompt dismissed''))"
  let ?self = "LibSecretAgent_init ''S'' (Some [''user'' \<mapsto> ''alice'']) ''L'' None None"
  have "password_store_sync ?secret (schema ?self) (attributes ?self) (collection ?self)
          (label ?self) ''blob'' None () =
        (Inl (GLib_Error ''The name org.freedesktop.secrets was not provided''), ())"
    and "password_lookup_sync ?secret (schema ?self) (attributes ?self) None () =
        (Inl (Other_Exception ''TypeError''), ())"
    and "password_clear_sync ?secret (schema ?self) (attributes ?self) None () =
        (Inl (GLib_Error ''Prompt dismissed''), ())"
    by (simp_all add: canned_def)
  then have "save ?secret ?self ''blob'' () =
         (Inl (GLib_Error ''The name org.freedesktop.secrets was not provided''), ())"
    and "load ?secret ?self () = (Inl (Other_Exception ''TypeError''), ())"
    and "clear ?secret ?self () = (Inl (GLib_Error ''Prompt dismissed''), ())"
    using crud_errors_propagate
      [where secret = ?secret and self = ?self and data = "''blob''" and st = "()"
         and st' = "()" and e = "GLib_Error ''The name org.freedesktop.secrets was not provided''"]
      crud_errors_propagate
      [where secret = ?secret and self = ?self and st = "()" and st' = "()"
         and e = "Other_Exception ''TypeError''"]
      crud_errors_propagate
      [where secret = ?secret and self = ?self and st = "()" and st' = "()"
         and e = "GLib_Error ''Prompt dismissed''"]
    by blast+
  then show ?thesis
    unfolding Let_def by (intro conjI)
qed

section \<open>Label and collection\<close>

text \<open>
  Claim C7. Two adapters built from the same schema name, the same attributes and the same
  attribute types (the schema is derived from all three), with any two labels and the
  default collection \<^verbatim>\<open>None\<close>, cannot be told apart by \<^verbatim>\<open>load\<close> and \<^verbatim>\<open>clear\<close>: against
  any secret service in any state both return the same result and leave the same state.
  More generally, \<^verbatim>\<open>load\<close> and \<^verbatim>\<open>clear\<close> of two adapters with equal schema and equal
  attributes are the same operations, whatever their labels and collections are.
\<close>

theorem load_clear_ignore_label:
  fixes secret :: "'st Secret"
  shows "load secret (LibSecretAgent_init name attrs label1 tys None) st =
         load secret (LibSecretAgent_init name attrs label2 tys None) st
    \<and> clear secret (LibSecretAgent_init name attrs label1 tys None) st =
      clear secret (LibSecretAgent_init name attrs label2 tys None) st
    \<and> (schema a = schema b \<and> attributes a = attributes b
        \<longrightarrow> load secret a = load secret b \<and> clear secret a = clear secret b)"
  by (simp add: load_def clear_def schema_init attributes_init)

theorem load_clear_ignore_label_witness:
  "(let a = LibSecretAgent_init ''S'' (Some [''user'' \<mapsto> ''alice'']) ''first'' None None;
        b = LibSecretAgent_init ''S'' (Some [''user'' \<mapsto> ''alice'']) ''second'' None
              (Some (Collection ''session''));
        secret = recording (canned (Inr True) (Inr (Some ''blob'')) (Inr True))
    in schema a = schema b \<and> attributes a = attributes b \<and> label a \<noteq> label b
      \<and> collection a \<noteq> collection b
      \<and> load secret a ([], ()) = load secret b ([], ())
      \<and> load secret b ([], ()) =
          (Inr (Some ''blob''), [Password_lookup (schema a) (attributes a) None], ())
      \<and> clear secret a ([], ()) = clear secret b ([], ())
      \<and> clear secret b ([], ()) =
          (Inr True, [Password_clear (schema a) (attributes a) None], ()))"
proof -
  let ?a = "LibSecretAgent_init ''S'' (Some [''user'' \<mapsto> ''alice'']) ''first'' None None"
  let ?b = "LibSecretAgent_init ''S'' (Some [''user'' \<mapsto> ''alice'']) ''second'' None
              (Some (Collection ''session''))"
  let ?secret = "recording (canned (Inr True) (Inr (Some ''blob'')) (Inr True))"
  have same: "schema ?a = schema ?b \<and> attributes ?a = attributes ?b"
    by (simp add: schema_init attributes_init)
  with load_clear_ignore_label [where secret = ?secret and a = ?a and b = ?b]
  have eq: "load ?secret ?a = load ?secret ?b" "clear ?secret ?a = clear ?secret ?b"
    by blast+
  have differ: "label ?a \<noteq> label ?b" "collection ?a \<noteq> collection ?b"
    by (simp_all add: LibSecretAgent_init_def Let_def)
  have b: "load ?secret ?b ([], ()) =
      (Inr (Some ''blob''), [Password_lookup (schema ?a) (attributes ?a) None], ())"
    "clear ?secret ?b ([], ()) =
      (Inr True, [Password_clear (schema ?a) (attributes ?a) None], ())"
    using same by (simp_all add: load_def clear_def recording_lookup recording_clear canned_def)
  from same eq differ b show ?thesis
    unfolding Let_def by simp
qed

section \<open>Construction without attributes\<close>

text \<open>
  Claim C10. The constructor is a total function of its arguments: it has no failing
  branch and calls nothing that touches the secret service. Given \<^verbatim>\<open>None\<close> or the empty
  dict for \<^verbatim>\<open>attributes\<close>, with any schema name, label, attribute types and collection, it
  builds the same adapter in both cases: its attributes are the empty mapping, the type
  map of its schema is empty (whatever \<^verbatim>\<open>attribute_types\<close> holds), and label and
  collection are as given.
\<close>

theorem construction_without_attributes:
  "LibSecretAgent_init name None lbl tys coll =
     \<lparr>collection = coll, attributes = Map.empty, label = lbl,
      schema = \<lparr>schema_name = name, schema_flags = NONE,
                schema_attribute_types = Map.empty\<rparr>\<rparr>
   \<and> LibSecretAgent_init name (Some Map.empty) lbl tys coll =
       LibSecretAgent_init name None lbl tys coll"
  by (simp add: LibSecretAgent_init_def Let_def or_empty_def Schema_new_def
      dict_comprehension_def)


section \<open>The adapter over the reference secret service\<close>

lemma save_keyring:
  "save keyring self x items =
     (Inr True,
      \<lparr>item_schema_name = schema_name (schema self), item_attributes = attributes self,
       item_collection = collection self, item_label = label self, item_payload = x\<rparr>
        # filter (\<lambda>i. \<not> (matches (schema self) (attributes self) i
                        \<and> item_collection i = collection self)) items)"
  by (simp add: save_def keyring_def)

lemma load_keyring:
  "load keyring self items =
     (Inr (case filter (matches (schema self) (attributes self)) items of
             [] \<Rightarrow> None | i # _ \<Rightarrow> Some (item_payload i)), items)"
  by (simp add: load_def keyring_def)

lemma clear_keyring:
  "clear keyring self items =
     (Inr (filter (matches (schema self) (attributes self)) items \<noteq> []),
      filter (\<lambda>i. \<not> matches (schema self) (attributes self) i) items)"
  by (simp add: clear_def keyring_def)

lemma load_after_save:
  "load keyring self (snd (save keyring self x items)) =
     (Inr (Some x), snd (save keyring self x items))"
  by (simp add: save_keyring load_keyring matches_def)

lemma load_after_clear:
  "load keyring self (snd (clear keyring self items)) =
     (Inr None, snd (clear keyring self items))"
proof -
  have "filter (matches (schema self) (attributes self))
          (filter (\<lambda>i. \<not> matches (schema self) (attributes self) i) items) = []"
    by (induction items) simp_all
  then show ?thesis
    by (simp add: clear_keyring load_keyring)
qed

lemma clear_after_save:
  "fst (clear keyring self (snd (save keyring self x items))) = Inr True"
  by (simp add: save_keyring clear_keyring matches_def)

text \<open>
  Claim C4. Against the reference secret service, which raises no error, in any state and
  for any adapter and any payload \<open>x\<close>: \<^verbatim>\<open>save(x)\<close> returns \<^verbatim>\<open>True\<close>, and \<^verbatim>\<open>load()\<close> right
  after it returns \<open>x\<close> and changes nothing. In particular, for the adapter with schema
  name \<^verbatim>\<open>"Test Schema"\<close> and attributes \<^verbatim>\<open>{"attr1": "foo", "attr2": "bar"}\<close> and the payload
  \<^verbatim>\<open>"Test Data"\<close>: \<^verbatim>\<open>save\<close> returns \<^verbatim>\<open>True\<close>, \<^verbatim>\<open>load\<close> returns \<^verbatim>\<open>"Test Data"\<close>, \<^verbatim>\<open>clear\<close>
  returns \<^verbatim>\<open>True\<close>, and the \<^verbatim>\<open>load\<close> after it returns \<^verbatim>\<open>None\<close>.
\<close>

theorem save_load_round_trip:
  "(case save keyring self x items of
      (saved, items1) \<Rightarrow> saved = Inr True \<and> load keyring self items1 = (Inr (Some x), items1))
   \<and> (let agent = LibSecretAgent_init ''Test Schema''
                    (Some [''attr1'' \<mapsto> ''foo'', ''attr2'' \<mapsto> ''bar'']) '''' None None
      in case save keyring agent ''Test Data'' items of
           (saved, items1) \<Rightarrow> saved = Inr True \<and>
             (case load keyring agent items1 of
                (loaded, items2) \<Rightarrow> loaded = Inr (Some ''Test Data'') \<and>
                  (case clear keyring agent items2 of
                     (cleared, items3) \<Rightarrow> cleared = Inr True \<and>
                       fst (load keyring agent items3) = Inr None)))"
proof
  obtain saved items1 where s: "save keyring self x items = (saved, items1)"
    by fastforce
  then have "saved = Inr True"
    by (simp add: save_keyring)
  moreover from s load_after_save [of self x items]
  have "load keyring self items1 = (Inr (Some x), items1)"
    by simp
  ultimately show "case save keyring self x items of
      (saved, items1) \<Rightarrow> saved = Inr True \<and> load keyring self items1 = (Inr (Some x), items1)"
    using s by simp
next
  let ?agent = "LibSecretAgent_init ''Test Schema''
                  (Some [''attr1'' \<mapsto> ''foo'', ''attr2'' \<mapsto> ''bar'']) '''' None None"
  obtain saved items1 where s: "save keyring ?agent ''Test Data'' items = (saved, items1)"
    by fastforce
  then have saved: "saved = Inr True"
    by (simp add: save_keyring)
  from s load_after_save [of ?agent "''Test Data''" items]
  have l: "load keyring ?agent items1 = (Inr (Some ''Test Data''), items1)"
    by simp
  obtain cleared items3 where c: "clear keyring ?agent items1 = (cleared, items3)"
    by fastforce
  with s clear_after_save [of ?agent "''Test Data''" items] have cleared: "cleared = Inr True"
    by simp
  from c load_after_clear [of ?agent items1]
  have "fst (load keyring ?agent items3) = Inr None"
    by simp
  with s saved l c cleared show "let agent = ?agent
      in case save keyring agent ''Test Data'' items of
           (saved, items1) \<Rightarrow> saved = Inr True \<and>
             (case load keyring agent items1 of
                (loaded, items2) \<Rightarrow> loaded = Inr (Some ''Test Data'') \<and>
                  (case clear keyring agent items2 of
                     (cleared, items3) \<Rightarrow> cleared = Inr True \<and>
                       fst (load keyring agent items3) = Inr None))"
    unfolding Let_def by simp
qed

text \<open>
  Claim C8. Against the reference secret service, for any adapter and any state of the
  store: when no stored item matches the schema and attributes of the adapter,
  \<^verbatim>\<open>clear()\<close> returns \<^verbatim>\<open>False\<close> and the store is as it was; when at least one item matches,
  \<^verbatim>\<open>clear()\<close> returns \<^verbatim>\<open>True\<close> and the store afterwards holds exactly the items that did
  not match, in their order, so every matching item is gone.
\<close>

theorem clear_reports_removal:
  "(\<not> (\<exists>i\<in>set items. matches (schema self) (attributes self) i)
      \<longrightarrow> clear keyring self items = (Inr False, items))
   \<and> ((\<exists>i\<in>set items. matches (schema self) (attributes self) i)
      \<longrightarrow> clear keyring self items =
            (Inr True, filter (\<lambda>i. \<not> matches (schema self) (attributes self) i) items)
          \<and> \<not> (\<exists>i\<in>set (snd (clear keyring self items)).
                  matches (schema self) (attributes self) i))"
proof (intro conjI impI)
  assume none: "\<not> (\<exists>i\<in>set items. matches (schema self) (attributes self) i)"
  then have "filter (matches (schema self) (attributes self)) items = []"
    by (simp add: filter_empty_conv)
  moreover from none
  have "filter (\<lambda>i. \<not> matches (schema self) (attributes self) i) items = items"
    by (simp add: filter_id_conv)
  ultimately show "clear keyring self items = (Inr False, items)"
    by (simp add: clear_keyring)
next
  assume some: "\<exists>i\<in>set items. matches (schema self) (attributes self) i"
  then have "filter (matches (schema self) (attributes self)) items \<noteq> []"
    by (simp add: filter_empty_conv)
  then show "clear keyring self items =
      (Inr True, filter (\<lambda>i. \<not> matches (schema self) (attributes self) i) items)"
    by (simp add: clear_keyring)
  show "\<not> (\<exists>i\<in>set (snd (clear keyring self items)).
              matches (schema self) (attributes self) i)"
    by (simp add: clear_keyring)
qed

theorem clear_reports_removal_witness:
  "(let self = LibSecretAgent_init ''S'' (Some [''user'' \<mapsto> ''alice'']) ''L'' None None;
        mine = \<lparr>item_schema_name = ''S'', item_attributes = [''user'' \<mapsto> ''alice''],
                item_collection = None, item_label = ''L'', item_payload = ''blob''\<rparr>;
        other = \<lparr>item_schema_name = ''T'', item_attributes = [''user'' \<mapsto> ''alice''],
                 item_collection = None, item_label = ''L'', item_payload = ''kept''\<rparr>
    in matches (schema self) (attributes self) mine
      \<and> \<not> matches (schema self) (attributes self) other
      \<and> clear keyring self [other] = (Inr False, [other])
      \<and> clear keyring self [] = (Inr False, [])
      \<and> clear keyring self [mine, other, mine] = (Inr True, [other]))"
proof -
  let ?self = "LibSecretAgent_init ''S'' (Some [''user'' \<mapsto> ''alice'']) ''L'' None None"
  let ?mine = "\<lparr>item_schema_name = ''S'', item_attributes = [''user'' \<mapsto> ''alice''],
                item_collection = None, item_label = ''L'', item_payload = ''blob''\<rparr>"
  let ?other = "\<lparr>item_schema_name = ''T'', item_attributes = [''user'' \<mapsto> ''alice''],
                 item_collection = None, item_label = ''L'', item_payload = ''kept''\<rparr>"
  have m: "matches (schema ?self) (attributes ?self) ?mine"
    and o: "\<not> matches (schema ?self) (attributes ?self) ?other"
    by (simp_all add: matches_def schema_init attributes_init Schema_new_def or_empty_def)
  from o clear_reports_removal [of "[?other]" ?self]
  have c1: "clear keyring ?self [?other] = (Inr False, [?other])"
    by simp
  from clear_reports_removal [of "[]" ?self]
  have c2: "clear keyring ?self [] = (Inr False, [])"
    by simp
  from m o clear_reports_removal [of "[?mine, ?other, ?mine]" ?self]
  have c3: "clear keyring ?self [?mine, ?other, ?mine] = (Inr True, [?other])"
    by simp
  from m o c1 c2 c3 show ?thesis
    unfolding Let_def by (intro conjI)
qed


end
